theory Spec2Isabelle
  imports Complex_Main
begin

section \<open>Exceptions, external faults and the sequential effect model\<close>

text \<open>
  Python exceptions are values. \<open>MySQLError\<close> stands for \<open>mysql.connector.Error\<close> and its
  subclasses, \<open>OtherException\<close> for any other subclass of \<open>Exception\<close>.
  \<open>KeyboardInterrupt\<close> and \<open>SystemExit\<close> derive from \<open>BaseException\<close> only, so an
  \<open>except Exception\<close> clause does not catch them.
\<close>

datatype exn =
    MySQLError
  | SMTPAuthenticationError
  | SMTPException
  | KeyError string
  | AttributeError
  | OtherException
  | KeyboardInterrupt
  | SystemExit int

fun is_Exception :: "exn \<Rightarrow> bool" where
  "is_Exception KeyboardInterrupt = False"
| "is_Exception (SystemExit n) = False"
| "is_Exception e = True"

fun is_SMTPException :: "exn \<Rightarrow> bool" where
  "is_SMTPException SMTPAuthenticationError = True"
| "is_SMTPException SMTPException = True"
| "is_SMTPException e = False"

text \<open>
  What an external operation (database driver, SMTP library) can raise. The environment
  decides, per operation, whether it fails and how.
\<close>

datatype fault_kind = DbFault | SmtpAuthFault | SmtpFault | OtherFault | Interrupt

fun exn_of :: "fault_kind \<Rightarrow> exn" where
  "exn_of DbFault = MySQLError"
| "exn_of SmtpAuthFault = SMTPAuthenticationError"
| "exn_of SmtpFault = SMTPException"
| "exn_of OtherFault = OtherException"
| "exn_of Interrupt = KeyboardInterrupt"

datatype caller = Metrics | Pipeline | SingleEvent | BulkEvents

datatype query =
    CountsQuery | FailedQuery
  | UsersQuery | BatchQuery | InsertionsQuery
  | InsertOne | InsertMany

datatype smtp_step = SmtpOpen | SmtpStartTls | SmtpLogin | SmtpSendMessage | SmtpQuit

datatype op_point =
    Connect caller
  | OpenCursor caller
  | Execute query
  | Commit caller
  | CloseCursor caller
  | CloseConnection caller
  | Smtp smtp_step

subsection \<open>Tables and configuration\<close>

text \<open>
  One row of \<open>cv_processing_log\<close>. The timestamp is in seconds; \<open>DATE(timestamp)\<close> is the
  day number. Text columns may hold NULL (\<open>None\<close>); the bulk writer can store it.
\<close>

record log_row =
  timestamp :: int
  email :: "string option"
  event_type :: "string option"
  status :: "string option"
  error_message :: "string option"
  user_id :: "string option"

definition date_of :: "int \<Rightarrow> int" where
  "date_of ts = ts div 86400"

record config =
  SMTP_HOST :: string
  SMTP_PORT :: int
  SMTP_USER :: string
  SMTP_PASSWORD :: string
  EMAIL_FROM :: string
  EMAIL_TO :: string
  MAX_FAILED_EMAILS_IN_REPORT :: int

text \<open>
  The environment of one invocation: which external operations fail, the wall clock,
  the configuration, and what the three pipeline-status queries fetch
  (\<open>None\<close> when \<open>fetchone()\<close> yields no row).
\<close>

record world =
  fault :: "op_point \<Rightarrow> fault_kind option"
  now :: int
  cfg :: config
  users_count :: "int option"
  batch_count :: "int option"
  insertions_count :: "int option"

datatype io_event =
    EvConnect
  | EvCursor
  | EvQuery query
  | EvCommit
  | EvCloseCursor
  | EvCloseConnection
  | EvSmtp smtp_step

text \<open>
  The mutable state: the stored table, the rows inserted but not yet committed on the open
  connection, the sequence of external operations performed so far, and the two local
  variables \<open>connection\<close> and \<open>cursor\<close> of the running function (\<open>False\<close> is Python's
  \<open>None\<close>).
\<close>

record sys_state =
  table :: "log_row list"
  pending :: "log_row list"
  trace :: "io_event list"
  connection :: bool
  cursor :: bool

type_synonym 'a io = "sys_state \<Rightarrow> (exn + 'a) \<times> sys_state"

definition io_ret :: "'a \<Rightarrow> 'a io" where
  "io_ret x = (\<lambda>s. (Inr x, s))"

definition io_raise :: "exn \<Rightarrow> 'a io" where
  "io_raise e = (\<lambda>s. (Inl e, s))"

definition io_bind :: "'a io \<Rightarrow> ('a \<Rightarrow> 'b io) \<Rightarrow> 'b io" where
  "io_bind m f = (\<lambda>s. case m s of (Inl e, s') \<Rightarrow> (Inl e, s') | (Inr x, s') \<Rightarrow> f x s')"

text \<open>\<open>try: m except <any>: h\<close>; the handler decides itself what it lets through.\<close>

definition io_catch :: "'a io \<Rightarrow> (exn \<Rightarrow> 'a io) \<Rightarrow> 'a io" where
  "io_catch m h = (\<lambda>s. case m s of (Inl e, s') \<Rightarrow> h e s' | (Inr x, s') \<Rightarrow> (Inr x, s'))"

text \<open>
  \<open>try: m finally: c\<close>: the clean-up always runs; when it raises, its exception replaces the
  outcome of \<open>m\<close>.
\<close>

definition io_finally :: "'a io \<Rightarrow> unit io \<Rightarrow> 'a io" where
  "io_finally m c =
     (\<lambda>s. case m s of (r, s') \<Rightarrow>
        (case c s' of (Inl e, s'') \<Rightarrow> (Inl e, s'') | (Inr u, s'') \<Rightarrow> (r, s'')))"

definition emit :: "io_event \<Rightarrow> unit io" where
  "emit ev = (\<lambda>s. (Inr (), s\<lparr>trace := trace s @ [ev]\<rparr>))"

text \<open>An external operation: it raises what the environment says, or happens.\<close>

definition extern :: "world \<Rightarrow> op_point \<Rightarrow> io_event \<Rightarrow> unit io" where
  "extern w p ev =
     (case fault w p of Some k \<Rightarrow> io_raise (exn_of k) | None \<Rightarrow> emit ev)"

definition modify :: "(sys_state \<Rightarrow> sys_state) \<Rightarrow> unit io" where
  "modify f = (\<lambda>s. (Inr (), f s))"

section \<open>metrics\_collector.py\<close>

subsection \<open>The two queries of \<open>get_yesterday_metrics\<close>\<close>

record count_row =
  g_event_type :: "string option"
  g_count :: int

record failed_row =
  f_email :: "string option"
  f_event_type :: "string option"
  f_error_message :: "string option"
  f_timestamp :: int

text \<open>
  \<open>SELECT event_type, COUNT(*) ... WHERE DATE(timestamp) = day GROUP BY event_type\<close>:
  one row per event type present on that day.
\<close>

definition count_by_event_type :: "int \<Rightarrow> log_row list \<Rightarrow> count_row list" where
  "count_by_event_type day tbl =
     (let rows = filter (\<lambda>r. date_of (timestamp r) = day) tbl
      in map (\<lambda>t. \<lparr>g_event_type = t,
                     g_count = int (length (filter (\<lambda>r. event_type r = t) rows))\<rparr>)
             (remdups (map event_type rows)))"

definition project_failed :: "log_row \<Rightarrow> failed_row" where
  "project_failed r =
     \<lparr>f_email = email r, f_event_type = event_type r,
      f_error_message = error_message r, f_timestamp = timestamp r\<rparr>"

text \<open>
  \<open>SELECT email, event_type, error_message, timestamp ... WHERE DATE(timestamp) = day
  AND status = 'failed' ORDER BY timestamp DESC\<close>, before the \<open>LIMIT\<close>.
\<close>

definition failed_rows_of_day :: "int \<Rightarrow> log_row list \<Rightarrow> log_row list" where
  "failed_rows_of_day day tbl =
     sort_key (\<lambda>r. - timestamp r)
       (filter (\<lambda>r. date_of (timestamp r) = day \<and> status r = Some ''failed'') tbl)"

definition run_counts_query :: "world \<Rightarrow> int \<Rightarrow> (count_row list) io" where
  "run_counts_query w day =
     io_bind (extern w (Execute CountsQuery) (EvQuery CountsQuery))
       (\<lambda>u s. (Inr (count_by_event_type day (table s)), s))"

text \<open>The server rejects a negative \<open>LIMIT\<close>; the driver raises its \<open>Error\<close>.\<close>

definition run_failed_query :: "world \<Rightarrow> int \<Rightarrow> int \<Rightarrow> (failed_row list) io" where
  "run_failed_query w day limit =
     io_bind (extern w (Execute FailedQuery) (EvQuery FailedQuery))
       (\<lambda>u s. if limit < 0 then (Inl MySQLError, s)
               else (Inr (map project_failed (take (nat limit) (failed_rows_of_day day (table s)))), s))"

subsection \<open>The metrics dictionary\<close>

record metrics =
  report_date :: int
  cvs_received :: int
  cvs_rejected :: int
  cvs_parsed_success :: int
  cvs_parsing_failed :: int
  cvs_insertion_failed :: int
  total_failed :: int
  cvs_in_progress :: int
  success_rate :: real
  failed_emails :: "failed_row list"

definition initial_metrics :: "int \<Rightarrow> metrics" where
  "initial_metrics yesterday =
     \<lparr>report_date = yesterday,
      cvs_received = 0, cvs_rejected = 0, cvs_parsed_success = 0,
      cvs_parsing_failed = 0, cvs_insertion_failed = 0,
      total_failed = 0, cvs_in_progress = 0, success_rate = 0, failed_emails = []\<rparr>"

text \<open>The body of \<open>for row in results\<close>.\<close>

definition count_step :: "metrics \<Rightarrow> count_row \<Rightarrow> metrics" where
  "count_step m row =
     (if g_event_type row = Some ''cv_received'' then m\<lparr>cvs_received := g_count row\<rparr>
      else if g_event_type row = Some ''cv_rejected'' then m\<lparr>cvs_rejected := g_count row\<rparr>
      else if g_event_type row = Some ''cv_parsed_success''
        then m\<lparr>cvs_parsed_success := g_count row\<rparr>
      else if g_event_type row = Some ''cv_parsing_failed''
        then m\<lparr>cvs_parsing_failed := g_count row\<rparr>
      else if g_event_type row = Some ''cv_insertion_failed''
        then m\<lparr>cvs_insertion_failed := g_count row\<rparr>
      else m)"

fun count_loop :: "metrics \<Rightarrow> count_row list \<Rightarrow> metrics" where
  "count_loop m [] = m"
| "count_loop m (row # results) = count_loop (count_step m row) results"

definition set_total_failed :: "metrics \<Rightarrow> metrics" where
  "set_total_failed m =
     m\<lparr>total_failed := cvs_rejected m + cvs_parsing_failed m + cvs_insertion_failed m\<rparr>"

text \<open>
  Python's \<open>/\<close> on two ints is true division; the quotient is kept here as the exact real
  number (the rounding of the binary float is not part of the model).
\<close>

definition set_success_rate :: "metrics \<Rightarrow> metrics" where
  "set_success_rate m =
     (let total_completed =
            cvs_parsed_success m + cvs_parsing_failed m + cvs_insertion_failed m
      in if total_completed > 0
           then m\<lparr>success_rate :=
                    real_of_int (cvs_parsed_success m) / real_of_int total_completed * 100\<rparr>
         else if cvs_received m > 0 then m\<lparr>success_rate := 100\<rparr>
         else m)"

definition set_in_progress :: "metrics \<Rightarrow> metrics" where
  "set_in_progress m =
     m\<lparr>cvs_in_progress := max 0 (cvs_received m - cvs_parsed_success m - total_failed m)\<rparr>"

subsection \<open>Connection handling shared by both collector methods\<close>

text \<open>\<open>get_db_connection\<close>: connect, log and re-raise on \<open>Error\<close>.\<close>

definition get_db_connection :: "world \<Rightarrow> caller \<Rightarrow> unit io" where
  "get_db_connection w c =
     io_catch (extern w (Connect c) EvConnect) (\<lambda>e. io_raise e)"

text \<open>
  The \<open>finally\<close> block of the collector methods. An open connection reports
  \<open>is_connected()\<close>; closing it discards uncommitted rows.
\<close>

definition collector_cleanup :: "world \<Rightarrow> caller \<Rightarrow> unit io" where
  "collector_cleanup w c =
     io_bind (\<lambda>s. if cursor s
                   then io_bind (extern w (CloseCursor c) EvCloseCursor)
                          (\<lambda>u. modify (\<lambda>s. s\<lparr>cursor := False\<rparr>)) s
                   else io_ret () s)
       (\<lambda>u s. if connection s
               then io_bind (extern w (CloseConnection c) EvCloseConnection)
                      (\<lambda>u. modify (\<lambda>s. s\<lparr>connection := False, pending := []\<rparr>)) s
               else io_ret () s)"

text \<open>
  \<open>connection = self.get_db_connection(); cursor = connection.cursor(dictionary=True)\<close>.
  A fresh connection has no uncommitted rows.
\<close>

definition acquire :: "world \<Rightarrow> caller \<Rightarrow> unit io" where
  "acquire w c =
     io_bind (get_db_connection w c) (\<lambda>u.
     io_bind (modify (\<lambda>s. s\<lparr>connection := True, pending := []\<rparr>)) (\<lambda>u.
     io_bind (extern w (OpenCursor c) EvCursor) (\<lambda>u.
     modify (\<lambda>s. s\<lparr>cursor := True\<rparr>))))"

subsection \<open>\<open>get_yesterday_metrics\<close>\<close>

definition yesterday :: "world \<Rightarrow> int" where
  "yesterday w = date_of (now w) - 1"

definition metrics_body :: "world \<Rightarrow> metrics io" where
  "metrics_body w =
     io_bind (acquire w Metrics) (\<lambda>u.
     io_bind (run_counts_query w (yesterday w)) (\<lambda>results.
     let m = set_in_progress (set_success_rate (set_total_failed
               (count_loop (initial_metrics (yesterday w)) results)))
     in io_bind (run_failed_query w (yesterday w) (MAX_FAILED_EMAILS_IN_REPORT (cfg w)))
          (\<lambda>rows. io_ret (m\<lparr>failed_emails := rows\<rparr>))))"

definition get_yesterday_metrics :: "world \<Rightarrow> metrics io" where
  "get_yesterday_metrics w =
     (\<lambda>s. io_finally (io_catch (metrics_body w) (\<lambda>e. io_raise e))
                      (collector_cleanup w Metrics)
             (s\<lparr>connection := False, cursor := False\<rparr>))"

subsection \<open>\<open>get_current_pipeline_status\<close>\<close>

record pipeline_status =
  unprocessed_cvs :: int
  active_batches :: int
  pending_insertions :: int

text \<open>
  \<open>cursor.execute(...); result = cursor.fetchone()\<close> for one of the three
  \<open>SELECT COUNT(*)\<close> queries; the fetched row comes from the environment.
\<close>

definition run_scalar_query :: "world \<Rightarrow> query \<Rightarrow> int option \<Rightarrow> (int option) io" where
  "run_scalar_query w q answer =
     io_bind (extern w (Execute q) (EvQuery q)) (\<lambda>u. io_ret answer)"

text \<open>\<open>result['count'] if result else 0\<close>\<close>

definition count_or_zero :: "int option \<Rightarrow> int" where
  "count_or_zero result = (case result of Some n \<Rightarrow> n | None \<Rightarrow> 0)"

definition pipeline_body :: "world \<Rightarrow> pipeline_status io" where
  "pipeline_body w =
     io_bind (acquire w Pipeline) (\<lambda>u.
     io_bind (run_scalar_query w UsersQuery (users_count w)) (\<lambda>r1.
     io_bind (run_scalar_query w BatchQuery (batch_count w)) (\<lambda>r2.
     io_bind (run_scalar_query w InsertionsQuery (insertions_count w)) (\<lambda>r3.
     io_ret \<lparr>unprocessed_cvs = count_or_zero r1,
             active_batches = count_or_zero r2,
             pending_insertions = count_or_zero r3\<rparr>))))"

definition get_current_pipeline_status :: "world \<Rightarrow> pipeline_status io" where
  "get_current_pipeline_status w =
     (\<lambda>s. io_finally (io_catch (pipeline_body w) (\<lambda>e. io_raise e))
                      (collector_cleanup w Pipeline)
             (s\<lparr>connection := False, cursor := False\<rparr>))"

subsection \<open>\<open>get_full_report_data\<close>\<close>

text \<open>
  The report dictionary \<open>{**metrics, 'pipeline_status': ..., 'generated_at': ...}\<close> always has
  the same twelve keys with values of fixed types, so it is a record; \<open>report_items\<close> is its
  view as key-value pairs, which subscripts read. \<open>report_date\<close> and \<open>generated_at\<close> are
  formatted dates in the source; here they are the day number and the clock value.
\<close>

record report =
  metrics_part :: metrics
  pipeline :: pipeline_status
  generated_at :: int

definition get_full_report_data :: "world \<Rightarrow> report io" where
  "get_full_report_data w =
     io_bind (get_yesterday_metrics w) (\<lambda>m.
     io_bind (get_current_pipeline_status w) (\<lambda>pipeline_status.
     io_ret \<lparr>metrics_part = m, pipeline = pipeline_status, generated_at = now w\<rparr>))"

datatype pyval =
    PInt int
  | PFloat real
  | PDay int
  | PTime int
  | PRows "failed_row list"
  | PPipeline pipeline_status

type_synonym pydict = "(string \<times> pyval) list"

definition metrics_items :: "metrics \<Rightarrow> pydict" where
  "metrics_items m =
     [(''report_date'', PDay (report_date m)),
      (''cvs_received'', PInt (cvs_received m)),
      (''cvs_rejected'', PInt (cvs_rejected m)),
      (''cvs_parsed_success'', PInt (cvs_parsed_success m)),
      (''cvs_parsing_failed'', PInt (cvs_parsing_failed m)),
      (''cvs_insertion_failed'', PInt (cvs_insertion_failed m)),
      (''total_failed'', PInt (total_failed m)),
      (''cvs_in_progress'', PInt (cvs_in_progress m)),
      (''success_rate'', PFloat (success_rate m)),
      (''failed_emails'', PRows (failed_emails m))]"

definition report_items :: "report \<Rightarrow> pydict" where
  "report_items report_data =
     metrics_items (metrics_part report_data)
     @ [(''pipeline_status'', PPipeline (pipeline report_data)),
        (''generated_at'', PTime (generated_at report_data))]"

text \<open>\<open>report_data[k]\<close> raises \<open>KeyError\<close> on a key the dictionary does not have.\<close>

definition getitem :: "report \<Rightarrow> string \<Rightarrow> pyval io" where
  "getitem report_data k =
     (case map_of (report_items report_data) k of
        Some v \<Rightarrow> io_ret v
      | None \<Rightarrow> io_raise (KeyError k))"

section \<open>email\_sender.py\<close>

text \<open>
  The status tier of \<open>generate_html_report\<close>: emoji (as its code point), colour and text.
\<close>

definition status_tier :: "real \<Rightarrow> nat \<times> string \<times> string" where
  "status_tier rate =
     (if rate \<ge> 95 then (0x1F7E2, ''#28a745'', ''Excellent'')
      else if rate \<ge> 85 then (0x1F7E1, ''#ffc107'', ''Good'')
      else if rate \<ge> 70 then (0x1F7E0, ''#fd7e14'', ''Needs Attention'')
      else (0x1F534, ''#dc3545'', ''Critical''))"

definition status_text :: "real \<Rightarrow> string" where
  "status_text rate = snd (snd (status_tier rate))"

text \<open>Python's \<open>xs[:n]\<close>.\<close>

definition py_prefix :: "int \<Rightarrow> 'a list \<Rightarrow> 'a list" where
  "py_prefix n xs = (if 0 \<le> n then take (nat n) xs else take (length xs - nat (- n)) xs)"

text \<open>
  The rendered document, reduced to what \<open>generate_html_report\<close> computes: the tier, the
  failure rows of the table, whether the note about further failures is shown, and the
  report whose values the fixed HTML template interpolates. Every key the function reads
  with \<open>get\<close> is present. The formatting of the cells is left out, except that
  \<open>event_type.replace\<close> raises on a row whose event type is \<open>None\<close>.
\<close>

record html_report =
  tier :: "nat \<times> string \<times> string"
  failure_rows :: "failed_row list"
  more_failures_note :: bool
  interpolated :: report

definition generate_html_report :: "config \<Rightarrow> report \<Rightarrow> exn + html_report" where
  "generate_html_report c report_data =
     (let rate = success_rate (metrics_part report_data);
          failed = failed_emails (metrics_part report_data);
          shown = (if failed = [] then []
                   else py_prefix (MAX_FAILED_EMAILS_IN_REPORT c) failed)
      in if None \<in> set (map f_event_type shown) then Inl AttributeError
         else Inr \<lparr>tier = status_tier rate,
                   failure_rows = shown,
                   more_failures_note =
                     (failed \<noteq> [] \<and> int (length failed) > MAX_FAILED_EMAILS_IN_REPORT c),
                   interpolated = report_data\<rparr>)"

definition lift :: "exn + 'a \<Rightarrow> 'a io" where
  "lift r = (\<lambda>s. (r, s))"

definition smtp :: "world \<Rightarrow> smtp_step \<Rightarrow> unit io" where
  "smtp w st = extern w (Smtp st) (EvSmtp st)"

definition send_report :: "world \<Rightarrow> report \<Rightarrow> bool io" where
  "send_report w report_data =
     io_catch
       (io_bind (lift (generate_html_report (cfg w) report_data)) (\<lambda>html_body.
        io_bind (smtp w SmtpOpen) (\<lambda>u.
        io_bind (smtp w SmtpStartTls) (\<lambda>u.
        io_bind (smtp w SmtpLogin) (\<lambda>u.
        io_bind (smtp w SmtpSendMessage) (\<lambda>u.
        io_bind (smtp w SmtpQuit) (\<lambda>u.
        io_ret True)))))))
       (\<lambda>e. if e = SMTPAuthenticationError then io_ret False
            else if is_SMTPException e then io_ret False
            else if is_Exception e then io_ret False
            else io_raise e)"

section \<open>config.py\<close>

definition missing_fields :: "config \<Rightarrow> string list" where
  "missing_fields c =
     (if SMTP_HOST c = [] then [''SMTP_HOST''] else [])
     @ (if SMTP_PORT c = 0 then [''SMTP_PORT''] else [])
     @ (if SMTP_USER c = [] then [''SMTP_USER''] else [])
     @ (if SMTP_PASSWORD c = [] then [''SMTP_PASSWORD''] else [])
     @ (if EMAIL_FROM c = [] then [''EMAIL_FROM''] else [])
     @ (if EMAIL_TO c = [] then [''EMAIL_TO''] else [])"

fun join_comma :: "string list \<Rightarrow> string" where
  "join_comma [] = []"
| "join_comma [x] = x"
| "join_comma (x # y # ys) = x @ '', '' @ join_comma (y # ys)"

definition validate_config :: "config \<Rightarrow> bool \<times> string" where
  "validate_config c =
     (if missing_fields c \<noteq> []
      then (False, ''Missing required configuration: '' @ join_comma (missing_fields c))
      else (True, ''Configuration is valid''))"

section \<open>daily\_report.py\<close>

text \<open>
  \<open>sys.exit(n)\<close> raises \<open>SystemExit n\<close>. The values read from the report are only logged,
  so each subscript matters by whether it raises.
\<close>

definition main_body :: "world \<Rightarrow> unit io" where
  "main_body w =
     (case validate_config (cfg w) of (is_valid, message) \<Rightarrow>
        io_bind (if \<not> is_valid then io_raise (SystemExit 1) else io_ret ()) (\<lambda>u.
        io_bind (get_full_report_data w) (\<lambda>report_data.
        io_bind (getitem report_data ''report_date'') (\<lambda>v.
        io_bind (getitem report_data ''cvs_received'') (\<lambda>v.
        io_bind (getitem report_data ''cvs_parsed_success'') (\<lambda>v.
        io_bind (getitem report_data ''total_failed'') (\<lambda>v.
        io_bind (getitem report_data ''success_rate'') (\<lambda>v.
        io_bind (getitem report_data ''activity_updated'') (\<lambda>v.
        io_bind (getitem report_data ''activity_update_failed'') (\<lambda>v.
        io_bind (send_report w report_data) (\<lambda>success.
        if \<not> success then io_raise (SystemExit 1)
        else io_raise (SystemExit 0))))))))))))"

text \<open>
  The two handlers of \<open>main\<close>, then the interpreter: \<open>SystemExit n\<close> ends the process with
  code \<open>n\<close>, any other uncaught exception with code 1, a normal return with code 0.
\<close>

definition main :: "world \<Rightarrow> sys_state \<Rightarrow> int \<times> sys_state" where
  "main w s =
     (case io_catch (main_body w)
             (\<lambda>e. if e = KeyboardInterrupt then io_raise (SystemExit 130)
                  else if is_Exception e then io_raise (SystemExit 1)
                  else io_raise e) s of
        (Inl (SystemExit n), s') \<Rightarrow> (n, s')
      | (Inl e, s') \<Rightarrow> (1, s')
      | (Inr u, s') \<Rightarrow> (0, s'))"

section \<open>cv\_event\_tracker.py\<close>

definition valid_events :: "string list" where
  "valid_events =
     [''cv_received'', ''cv_rejected'', ''cv_parsed_success'', ''cv_parsing_failed'',
      ''cv_insertion_failed'', ''activity_updated'', ''activity_update_failed'']"

text \<open>
  The \<open>finally\<close> block of the two writers: each close is wrapped in \<open>try ... except: pass\<close>.
\<close>

definition tracker_cleanup :: "world \<Rightarrow> caller \<Rightarrow> unit io" where
  "tracker_cleanup w c =
     io_bind (\<lambda>s. if cursor s
                   then io_catch (io_bind (extern w (CloseCursor c) EvCloseCursor)
                                    (\<lambda>u. modify (\<lambda>s. s\<lparr>cursor := False\<rparr>)))
                          (\<lambda>e. io_ret ()) s
                   else io_ret () s)
       (\<lambda>u s. if connection s
               then io_catch (io_bind (extern w (CloseConnection c) EvCloseConnection)
                                (\<lambda>u. modify (\<lambda>s. s\<lparr>connection := False, pending := []\<rparr>)))
                      (\<lambda>e. io_ret ()) s
               else io_ret () s)"

text \<open>\<open>mysql.connector.connect(**DB_CONFIG); connection.cursor()\<close>\<close>

definition tracker_connect :: "world \<Rightarrow> caller \<Rightarrow> unit io" where
  "tracker_connect w c =
     io_bind (extern w (Connect c) EvConnect) (\<lambda>u.
     io_bind (modify (\<lambda>s. s\<lparr>connection := True, pending := []\<rparr>)) (\<lambda>u.
     io_bind (extern w (OpenCursor c) EvCursor) (\<lambda>u.
     modify (\<lambda>s. s\<lparr>cursor := True\<rparr>))))"

text \<open>
  \<open>INSERT\<close> adds rows to the open transaction; \<open>commit\<close> makes them part of the table.
\<close>

definition insert_rows :: "world \<Rightarrow> query \<Rightarrow> log_row list \<Rightarrow> unit io" where
  "insert_rows w q rows =
     io_bind (extern w (Execute q) (EvQuery q))
       (\<lambda>u. modify (\<lambda>s. s\<lparr>pending := pending s @ rows\<rparr>))"

definition commit :: "world \<Rightarrow> caller \<Rightarrow> unit io" where
  "commit w c =
     io_bind (extern w (Commit c) EvCommit)
       (\<lambda>u. modify (\<lambda>s. s\<lparr>table := table s @ pending s, pending := []\<rparr>))"

text \<open>The two \<open>except\<close> clauses of the writers: both log and return \<open>False\<close>.\<close>

definition tracker_handlers :: "exn \<Rightarrow> bool io" where
  "tracker_handlers e =
     (if e = MySQLError then io_ret False
      else if is_Exception e then io_ret False
      else io_raise e)"

definition log_cv_event_body ::
  "world \<Rightarrow> string \<Rightarrow> string \<Rightarrow> string \<Rightarrow> string option \<Rightarrow> string option \<Rightarrow> bool io" where
  "log_cv_event_body w email_arg event_type_arg status_arg user_id_arg error_message_arg =
     (if event_type_arg \<notin> set valid_events then io_ret False
      else if status_arg \<notin> set [''success'', ''failed''] then io_ret False
      else
        io_bind (tracker_connect w SingleEvent) (\<lambda>u.
        io_bind (insert_rows w InsertOne
                   [\<lparr>timestamp = now w, email = Some email_arg,
                     event_type = Some event_type_arg, status = Some status_arg,
                     error_message = error_message_arg, user_id = user_id_arg\<rparr>]) (\<lambda>u.
        io_bind (commit w SingleEvent) (\<lambda>u.
        io_ret True))))"

definition log_cv_event ::
  "world \<Rightarrow> string \<Rightarrow> string \<Rightarrow> string \<Rightarrow> string option \<Rightarrow> string option \<Rightarrow> bool io" where
  "log_cv_event w email_arg event_type_arg status_arg user_id_arg error_message_arg =
     (\<lambda>s. io_finally
             (io_catch
                (log_cv_event_body w email_arg event_type_arg status_arg user_id_arg
                   error_message_arg)
                tracker_handlers)
             (tracker_cleanup w SingleEvent)
             (s\<lparr>connection := False, cursor := False\<rparr>))"

text \<open>
  The argument of \<open>log_bulk_events\<close>: \<open>None\<close> or a list whose elements are dictionaries
  (string keys and values) or something without a \<open>get\<close> method.
\<close>

datatype bulk_item = DictItem "(string \<times> string) list" | OtherItem

datatype bulk_arg = NoneArg | ListArg "bulk_item list"

text \<open>One tuple of \<open>values\<close>, as the row the \<open>INSERT\<close> stores with \<open>NOW()\<close>.\<close>

definition bulk_row :: "world \<Rightarrow> (string \<times> string) list \<Rightarrow> log_row" where
  "bulk_row w event =
     \<lparr>timestamp = now w, email = map_of event ''email'',
      event_type = map_of event ''event_type'', status = map_of event ''status'',
      error_message = map_of event ''error_message'', user_id = map_of event ''user_id''\<rparr>"

text \<open>The loop building \<open>values\<close>; \<open>event.get\<close> on a non-dictionary raises.\<close>

fun bulk_values :: "world \<Rightarrow> bulk_item list \<Rightarrow> exn + log_row list" where
  "bulk_values w [] = Inr []"
| "bulk_values w (OtherItem # events) = Inl AttributeError"
| "bulk_values w (DictItem event # events) =
     (case bulk_values w events of
        Inl e \<Rightarrow> Inl e
      | Inr rows \<Rightarrow> Inr (bulk_row w event # rows))"

definition log_bulk_events_body :: "world \<Rightarrow> bulk_arg \<Rightarrow> bool io" where
  "log_bulk_events_body w events =
     (case events of
        NoneArg \<Rightarrow> io_ret True
      | ListArg [] \<Rightarrow> io_ret True
      | ListArg (ev # evs) \<Rightarrow>
          io_bind (tracker_connect w BulkEvents) (\<lambda>u.
          io_bind (lift (bulk_values w (ev # evs))) (\<lambda>rows.
          io_bind (insert_rows w InsertMany rows) (\<lambda>u.
          io_bind (commit w BulkEvents) (\<lambda>u.
          io_ret True)))))"

definition log_bulk_events :: "world \<Rightarrow> bulk_arg \<Rightarrow> bool io" where
  "log_bulk_events w events =
     (\<lambda>s. io_finally (io_catch (log_bulk_events_body w events) tracker_handlers)
                      (tracker_cleanup w BulkEvents)
             (s\<lparr>connection := False, cursor := False\<rparr>))"

section \<open>Notions used in the statements\<close>

text \<open>Events a call appended to the trace.\<close>

definition new_events :: "sys_state \<Rightarrow> sys_state \<Rightarrow> io_event list" where
  "new_events s s' = drop (length (trace s)) (trace s')"


text \<open>
  The fallible operations of the two collection steps before their \<open>finally\<close> blocks:
  reaching the store and running the queries.
\<close>

definition metrics_ops :: "op_point list" where
  "metrics_ops =
     [Connect Metrics, OpenCursor Metrics, Execute CountsQuery, Execute FailedQuery]"

definition pipeline_ops :: "op_point list" where
  "pipeline_ops =
     [Connect Pipeline, OpenCursor Pipeline, Execute UsersQuery, Execute BatchQuery,
      Execute InsertionsQuery]"

text \<open>The \<open>WHERE\<close> clause of the failure query.\<close>

definition failed_on :: "int \<Rightarrow> log_row \<Rightarrow> bool" where
  "failed_on day r = (date_of (timestamp r) = day \<and> status r = Some ''failed'')"

section \<open>Concrete environments\<close>

definition no_faults :: "op_point \<Rightarrow> fault_kind option" where
  "no_faults p = None"

definition example_cfg :: config where
  "example_cfg =
     \<lparr>SMTP_HOST = ''smtp.example.com'', SMTP_PORT = 587, SMTP_USER = ''reporter'',
      SMTP_PASSWORD = ''secret'', EMAIL_FROM = ''from@example.com'',
      EMAIL_TO = ''to@example.com'', MAX_FAILED_EMAILS_IN_REPORT = 50\<rparr>"

text \<open>The clock stands in day 2, so the report covers day 1 (seconds 86400 to 172799).\<close>

definition healthy_world :: world where
  "healthy_world =
     \<lparr>fault = no_faults, now = 180000, cfg = example_cfg,
      users_count = Some 7, batch_count = Some 1, insertions_count = Some 2\<rparr>"

text \<open>The grouped-count query fails; everything else works.\<close>

definition query_down_world :: world where
  "query_down_world = healthy_world\<lparr>fault := no_faults(Execute CountsQuery \<mapsto> DbFault)\<rparr>"

text \<open>Every database operation fails with the driver's error.\<close>

definition store_down_world :: world where
  "store_down_world = healthy_world\<lparr>fault := (\<lambda>p. Some DbFault)\<rparr>"

definition state_of :: "log_row list \<Rightarrow> sys_state" where
  "state_of tbl =
     \<lparr>table = tbl, pending = [], trace = [], connection = False, cursor = False\<rparr>"

definition event_at :: "int \<Rightarrow> string \<Rightarrow> string \<Rightarrow> log_row" where
  "event_at ts et st =
     \<lparr>timestamp = ts, email = Some ''a@example.com'', event_type = Some et,
      status = Some st, error_message = None, user_id = None\<rparr>"

text \<open>
  Tables for the examples, each with the record the collector returns for it. The last row
  of the first table lies on day 2 and is outside the report.
\<close>

definition rate_table :: "log_row list" where
  "rate_table =
     [event_at 86400 ''cv_received'' ''success'',
      event_at 86401 ''cv_parsed_success'' ''success'',
      event_at 86402 ''cv_parsed_success'' ''success'',
      event_at 86403 ''cv_parsed_success'' ''success'',
      event_at 86404 ''cv_parsing_failed'' ''failed'',
      event_at 172800 ''cv_parsing_failed'' ''failed'']"

definition rate_metrics :: metrics where
  "rate_metrics =
     \<lparr>report_date = 1, cvs_received = 1, cvs_rejected = 0, cvs_parsed_success = 3,
      cvs_parsing_failed = 1, cvs_insertion_failed = 0, total_failed = 1,
      cvs_in_progress = 0, success_rate = 75,
      failed_emails = [\<lparr>f_email = Some ''a@example.com'',
                        f_event_type = Some ''cv_parsing_failed'',
                        f_error_message = None, f_timestamp = 86404\<rparr>]\<rparr>"

definition rate_report :: report where
  "rate_report =
     \<lparr>metrics_part = rate_metrics,
      pipeline = \<lparr>unprocessed_cvs = 7, active_batches = 1, pending_insertions = 2\<rparr>,
      generated_at = 180000\<rparr>"

definition failure_table :: "log_row list" where
  "failure_table =
     [event_at 86400 ''cv_received'' ''success'',
      event_at 86401 ''cv_received'' ''success'',
      event_at 86402 ''cv_received'' ''success'',
      event_at 86403 ''cv_received'' ''success'',
      event_at 86410 ''cv_rejected'' ''failed'',
      event_at 86420 ''cv_parsing_failed'' ''failed'',
      event_at 86430 ''cv_insertion_failed'' ''failed'']"

definition failure_metrics :: metrics where
  "failure_metrics =
     \<lparr>report_date = 1, cvs_received = 4, cvs_rejected = 1, cvs_parsed_success = 0,
      cvs_parsing_failed = 1, cvs_insertion_failed = 1, total_failed = 3,
      cvs_in_progress = 1, success_rate = 0,
      failed_emails = map project_failed
        [event_at 86430 ''cv_insertion_failed'' ''failed'',
         event_at 86420 ''cv_parsing_failed'' ''failed'',
         event_at 86410 ''cv_rejected'' ''failed'']\<rparr>"

definition clamp_table :: "log_row list" where
  "clamp_table =
     map (\<lambda>k. event_at (86400 + k) ''cv_received'' ''success'') [0, 1, 2, 3, 4]
     @ map (\<lambda>k. event_at (86500 + k) ''cv_parsed_success'' ''success'') [0, 1, 2, 3, 4, 5]"

definition clamp_metrics :: metrics where
  "clamp_metrics =
     \<lparr>report_date = 1, cvs_received = 5, cvs_rejected = 0, cvs_parsed_success = 6,
      cvs_parsing_failed = 0, cvs_insertion_failed = 0, total_failed = 0,
      cvs_in_progress = 0, success_rate = 100, failed_emails = []\<rparr>"

definition activity_table :: "log_row list" where
  "activity_table =
     [event_at 86400 ''cv_received'' ''success'',
      event_at 86500 ''activity_update_failed'' ''failed'',
      event_at 86450 ''cv_rejected'' ''failed'',
      event_at 86600 ''activity_updated'' ''success'']"

definition activity_metrics :: metrics where
  "activity_metrics =
     \<lparr>report_date = 1, cvs_received = 1, cvs_rejected = 1, cvs_parsed_success = 0,
      cvs_parsing_failed = 0, cvs_insertion_failed = 0, total_failed = 1,
      cvs_in_progress = 0, success_rate = 100,
      failed_emails = map project_failed
        [event_at 86500 ''activity_update_failed'' ''failed'',
         event_at 86450 ''cv_rejected'' ''failed'']\<rparr>"

text \<open>An event dictionary whose type and status are outside the enumerations.\<close>

definition bogus_event :: "(string \<times> string) list" where
  "bogus_event =
     [(''email'', ''x@example.com''), (''event_type'', ''bogus''), (''status'', ''maybe'')]"

section \<open>Properties of the aggregation\<close>

lemmas io_defs = io_finally_def io_catch_def io_bind_def io_ret_def io_raise_def
  extern_def emit_def modify_def lift_def

lemma count_step_derived:
  "total_failed (count_step m row) = total_failed m"
  "success_rate (count_step m row) = success_rate m"
  "cvs_in_progress (count_step m row) = cvs_in_progress m"
  by (simp_all add: count_step_def)

lemma count_loop_derived:
  "success_rate (count_loop m results) = success_rate m"
  by (induction results arbitrary: m) (simp_all add: count_step_derived)

lemma derived_fields:
  fixes m0 :: metrics
  defines "m \<equiv> set_in_progress (set_success_rate (set_total_failed m0))"
  shows derived_counters:
      "cvs_received m = cvs_received m0 \<and> cvs_rejected m = cvs_rejected m0
       \<and> cvs_parsed_success m = cvs_parsed_success m0
       \<and> cvs_parsing_failed m = cvs_parsing_failed m0
       \<and> cvs_insertion_failed m = cvs_insertion_failed m0"
    and derived_total: "total_failed m = cvs_rejected m0 + cvs_parsing_failed m0 + cvs_insertion_failed m0"
    and derived_progress:
      "cvs_in_progress m = max 0 (cvs_received m0 - cvs_parsed_success m0
                                   - (cvs_rejected m0 + cvs_parsing_failed m0 + cvs_insertion_failed m0))"
    and derived_rate:
      "success_rate m =
         (if cvs_parsed_success m0 + cvs_parsing_failed m0 + cvs_insertion_failed m0 > 0
          then real_of_int (cvs_parsed_success m0)
               / real_of_int (cvs_parsed_success m0 + cvs_parsing_failed m0 + cvs_insertion_failed m0) * 100
          else if cvs_received m0 > 0 then 100 else success_rate m0)"
  unfolding m_def
  by (simp_all add: set_in_progress_def set_success_rate_def set_total_failed_def Let_def)

text \<open>
  Whenever \<open>get_yesterday_metrics\<close> returns, its result is the derived record of the counting
  loop with the failure rows attached.
\<close>

lemma get_yesterday_metrics_returns:
  assumes "fst (get_yesterday_metrics w s) = Inr m"
  shows "\<exists>results rows.
           m = (set_in_progress (set_success_rate (set_total_failed
                  (count_loop (initial_metrics (yesterday w)) results))))\<lparr>failed_emails := rows\<rparr>"
  using assms
  by (auto simp: get_yesterday_metrics_def metrics_body_def io_finally_def io_catch_def
        io_bind_def io_ret_def io_raise_def run_counts_query_def run_failed_query_def Let_def
      split: prod.splits sum.splits if_splits)

subsection \<open>Runs without failures, and the example tables\<close>

lemma get_yesterday_metrics_no_fault:
  assumes "fault w (Connect Metrics) = None" "fault w (OpenCursor Metrics) = None"
    "fault w (Execute CountsQuery) = None" "fault w (Execute FailedQuery) = None"
    "fault w (CloseCursor Metrics) = None" "fault w (CloseConnection Metrics) = None"
    "0 \<le> MAX_FAILED_EMAILS_IN_REPORT (cfg w)"
  shows "get_yesterday_metrics w s =
    (Inr ((set_in_progress (set_success_rate (set_total_failed
            (count_loop (initial_metrics (yesterday w))
               (count_by_event_type (yesterday w) (table s))))))
          \<lparr>failed_emails := map project_failed
              (take (nat (MAX_FAILED_EMAILS_IN_REPORT (cfg w)))
                 (failed_rows_of_day (yesterday w) (table s)))\<rparr>),
     s\<lparr>trace := trace s @ [EvConnect, EvCursor, EvQuery CountsQuery, EvQuery FailedQuery,
                            EvCloseCursor, EvCloseConnection],
       connection := False, cursor := False, pending := []\<rparr>)"
  using assms
  by (simp add: get_yesterday_metrics_def metrics_body_def acquire_def get_db_connection_def
      collector_cleanup_def run_counts_query_def run_failed_query_def io_defs Let_def)

lemma healthy_world_simps:
  "fault healthy_world p = None"
  "MAX_FAILED_EMAILS_IN_REPORT (cfg healthy_world) = 50"
  "yesterday healthy_world = 1"
  "now healthy_world = 180000"
  by (simp_all add: healthy_world_def no_faults_def example_cfg_def yesterday_def date_of_def)

lemma table_state_of: "table (state_of tbl) = tbl" "trace (state_of tbl) = []"
  by (simp_all add: state_of_def)

lemma healthy_metrics:
  "fst (get_yesterday_metrics healthy_world (state_of tbl)) =
     Inr ((set_in_progress (set_success_rate (set_total_failed
            (count_loop (initial_metrics 1) (count_by_event_type 1 tbl)))))
          \<lparr>failed_emails := map project_failed (take 50 (failed_rows_of_day 1 tbl))\<rparr>)"
  by (simp add: get_yesterday_metrics_no_fault healthy_world_simps table_state_of)

lemma rate_table_counts:
  "count_by_event_type 1 rate_table =
   [\<lparr>g_event_type = Some ''cv_received'', g_count = 1\<rparr>,
    \<lparr>g_event_type = Some ''cv_parsed_success'', g_count = 3\<rparr>,
    \<lparr>g_event_type = Some ''cv_parsing_failed'', g_count = 1\<rparr>]"
  by (simp add: count_by_event_type_def rate_table_def event_at_def date_of_def)

lemma rate_table_failed:
  "failed_rows_of_day 1 rate_table = [event_at 86404 ''cv_parsing_failed'' ''failed'']"
  by (simp add: failed_rows_of_day_def rate_table_def event_at_def date_of_def)

lemmas derive_defs = initial_metrics_def count_step_def set_total_failed_def
  set_success_rate_def set_in_progress_def Let_def

lemma rate_table_run:
  "fst (get_yesterday_metrics healthy_world (state_of rate_table)) = Inr rate_metrics"
  by (simp add: healthy_metrics rate_table_counts rate_table_failed derive_defs rate_metrics_def
      project_failed_def event_at_def)

lemma failure_table_counts:
  "count_by_event_type 1 failure_table =
   [\<lparr>g_event_type = Some ''cv_received'', g_count = 4\<rparr>,
    \<lparr>g_event_type = Some ''cv_rejected'', g_count = 1\<rparr>,
    \<lparr>g_event_type = Some ''cv_parsing_failed'', g_count = 1\<rparr>,
    \<lparr>g_event_type = Some ''cv_insertion_failed'', g_count = 1\<rparr>]"
  by (simp add: count_by_event_type_def failure_table_def event_at_def date_of_def)

lemma failure_table_failed:
  "failed_rows_of_day 1 failure_table =
     [event_at 86430 ''cv_insertion_failed'' ''failed'',
      event_at 86420 ''cv_parsing_failed'' ''failed'',
      event_at 86410 ''cv_rejected'' ''failed'']"
  by (simp add: failed_rows_of_day_def failure_table_def event_at_def date_of_def)

lemma failure_table_run:
  "fst (get_yesterday_metrics healthy_world (state_of failure_table)) = Inr failure_metrics"
  by (simp add: healthy_metrics failure_table_counts failure_table_failed derive_defs
      failure_metrics_def)

lemma clamp_table_counts:
  "count_by_event_type 1 clamp_table =
   [\<lparr>g_event_type = Some ''cv_received'', g_count = 5\<rparr>,
    \<lparr>g_event_type = Some ''cv_parsed_success'', g_count = 6\<rparr>]"
  by (simp add: count_by_event_type_def clamp_table_def event_at_def date_of_def)

lemma clamp_table_failed: "failed_rows_of_day 1 clamp_table = []"
  by (simp add: failed_rows_of_day_def clamp_table_def event_at_def date_of_def)

lemma clamp_table_run:
  "fst (get_yesterday_metrics healthy_world (state_of clamp_table)) = Inr clamp_metrics"
  by (simp add: healthy_metrics clamp_table_counts clamp_table_failed derive_defs
      clamp_metrics_def)

subsection \<open>The derived fields of every returned record\<close>

lemma count_loop_initial_rate:
  "success_rate (count_loop (initial_metrics d) results) = 0"
  by (simp add: count_loop_derived initial_metrics_def)

text \<open>
  Claim C1. Every metrics record that \<open>get_yesterday_metrics\<close> returns has its success rate
  set by the three-case rule: with \<open>total_completed\<close> the sum of parsed, parse-failed and
  insertion-failed counts, it is \<open>parsed / total_completed * 100\<close> when
  \<open>total_completed > 0\<close>, else 100 when something was received, else 0.
\<close>

theorem success_rate_three_cases:
  assumes "fst (get_yesterday_metrics w s) = Inr m"
  shows "success_rate m =
     (if cvs_parsed_success m + cvs_parsing_failed m + cvs_insertion_failed m > 0
      then real_of_int (cvs_parsed_success m)
           / real_of_int (cvs_parsed_success m + cvs_parsing_failed m + cvs_insertion_failed m)
           * 100
      else if cvs_received m > 0 then 100 else 0)"
proof -
  from get_yesterday_metrics_returns [OF assms] obtain results rows where
    m: "m = (set_in_progress (set_success_rate (set_total_failed
               (count_loop (initial_metrics (yesterday w)) results))))\<lparr>failed_emails := rows\<rparr>"
    by blast
  show ?thesis
    unfolding m
    by (simp add: derived_counters derived_rate count_loop_initial_rate)
qed

theorem success_rate_three_cases_witness:
  "fst (get_yesterday_metrics healthy_world (state_of rate_table)) = Inr rate_metrics
   \<and> cvs_parsed_success rate_metrics = 3 \<and> cvs_parsing_failed rate_metrics = 1
   \<and> cvs_insertion_failed rate_metrics = 0 \<and> success_rate rate_metrics = 75"
  using success_rate_three_cases [OF rate_table_run] rate_table_run
  by (simp add: rate_metrics_def)

text \<open>
  Claim C3. In every metrics record that \<open>get_yesterday_metrics\<close> returns,
  \<open>total_failed\<close> is the sum of the rejected, parse-failed and insertion-failed counters.
\<close>

theorem total_failed_identity:
  assumes "fst (get_yesterday_metrics w s) = Inr m"
  shows "total_failed m = cvs_rejected m + cvs_parsing_failed m + cvs_insertion_failed m"
proof -
  from get_yesterday_metrics_returns [OF assms] obtain results rows where
    m: "m = (set_in_progress (set_success_rate (set_total_failed
               (count_loop (initial_metrics (yesterday w)) results))))\<lparr>failed_emails := rows\<rparr>"
    by blast
  show ?thesis
    unfolding m by (simp add: derived_counters derived_total)
qed

theorem total_failed_identity_witness:
  "fst (get_yesterday_metrics healthy_world (state_of failure_table)) = Inr failure_metrics
   \<and> cvs_rejected failure_metrics = 1 \<and> cvs_parsing_failed failure_metrics = 1
   \<and> cvs_insertion_failed failure_metrics = 1 \<and> total_failed failure_metrics = 3"
  using total_failed_identity [OF failure_table_run] failure_table_run
  by (simp add: failure_metrics_def)

text \<open>
  Claim C4. In every metrics record that \<open>get_yesterday_metrics\<close> returns,
  \<open>cvs_in_progress\<close> is \<open>max(0, cvs_received - cvs_parsed_success - total_failed)\<close>, hence
  never negative; five received and six parsed items give 0.
\<close>

theorem in_progress_clamped:
  assumes "fst (get_yesterday_metrics w s) = Inr m"
  shows "cvs_in_progress m = max 0 (cvs_received m - cvs_parsed_success m - total_failed m)
         \<and> 0 \<le> cvs_in_progress m"
proof -
  from get_yesterday_metrics_returns [OF assms] obtain results rows where
    m: "m = (set_in_progress (set_success_rate (set_total_failed
               (count_loop (initial_metrics (yesterday w)) results))))\<lparr>failed_emails := rows\<rparr>"
    by blast
  show ?thesis
    unfolding m by (simp add: derived_counters derived_total derived_progress)
qed

theorem in_progress_clamped_witness:
  "fst (get_yesterday_metrics healthy_world (state_of clamp_table)) = Inr clamp_metrics
   \<and> cvs_received clamp_metrics = 5 \<and> cvs_parsed_success clamp_metrics = 6
   \<and> total_failed clamp_metrics = 0 \<and> cvs_in_progress clamp_metrics = 0"
  using in_progress_clamped [OF clamp_table_run] clamp_table_run
  by (simp add: clamp_metrics_def)

section \<open>Failures of the collection and the exit code\<close>

subsection \<open>The two collection steps under arbitrary failures\<close>

lemma extern_None: "fault w p = None \<Longrightarrow> extern w p ev s = (Inr (), s\<lparr>trace := trace s @ [ev]\<rparr>)"
  by (simp add: extern_def emit_def)

lemma extern_Some: "fault w p = Some k \<Longrightarrow> extern w p ev s = (Inl (exn_of k), s)"
  by (simp add: extern_def io_raise_def)

lemmas collector_defs = get_yesterday_metrics_def metrics_body_def acquire_def
  get_db_connection_def collector_cleanup_def run_counts_query_def run_failed_query_def
  get_current_pipeline_status_def pipeline_body_def run_scalar_query_def

lemma exn_of_DbFault: "\<exists>k. MySQLError = exn_of k"
  by (rule exI [of _ DbFault]) simp

lemma metrics_error_kind:
  assumes "fst (get_yesterday_metrics w s) = Inl e"
  shows "\<exists>k. e = exn_of k"
  using assms exn_of_DbFault
  by (auto simp: collector_defs io_defs Let_def split: option.splits if_splits)

lemma metrics_fails_on_fault:
  assumes "p \<in> set metrics_ops" "fault w p = Some k"
  shows "\<exists>e. fst (get_yesterday_metrics w s) = Inl e"
  using assms
  by (auto simp: metrics_ops_def collector_defs io_defs Let_def split: option.splits if_splits)

lemma metrics_table: "table (snd (get_yesterday_metrics w s)) = table s"
  by (auto simp: collector_defs io_defs Let_def split: option.splits if_splits)


lemma pipeline_error_kind:
  assumes "fst (get_current_pipeline_status w s) = Inl e"
  shows "\<exists>k. e = exn_of k"
  using assms
  by (auto simp: collector_defs io_defs Let_def split: option.splits if_splits)

lemma pipeline_fails_on_fault:
  assumes "p \<in> set pipeline_ops" "fault w p = Some k"
  shows "\<exists>e. fst (get_current_pipeline_status w s) = Inl e"
  using assms
  by (auto simp: pipeline_ops_def collector_defs io_defs Let_def split: option.splits if_splits)

lemma pipeline_table: "table (snd (get_current_pipeline_status w s)) = table s"
  by (auto simp: collector_defs io_defs Let_def split: option.splits if_splits)


text \<open>No collector step touches the SMTP server.\<close>

lemma metrics_no_smtp:
  "\<exists>tr. trace (snd (get_yesterday_metrics w s)) = trace s @ tr \<and> EvSmtp st \<notin> set tr"
  by (auto simp: collector_defs io_defs Let_def split: option.splits if_splits)

lemma pipeline_no_smtp:
  "\<exists>tr. trace (snd (get_current_pipeline_status w s)) = trace s @ tr \<and> EvSmtp st \<notin> set tr"
  by (auto simp: collector_defs io_defs Let_def split: option.splits if_splits)

lemma full_report_cases:
  "get_full_report_data w s =
     (case get_yesterday_metrics w s of
        (Inl e, s1) \<Rightarrow> (Inl e, s1)
      | (Inr m, s1) \<Rightarrow>
          (case get_current_pipeline_status w s1 of
             (Inl e, s2) \<Rightarrow> (Inl e, s2)
           | (Inr pl, s2) \<Rightarrow>
               (Inr \<lparr>metrics_part = m, pipeline = pl, generated_at = now w\<rparr>, s2)))"
  by (simp add: get_full_report_data_def io_bind_def io_ret_def split: prod.splits sum.splits)

lemma full_report_error_kind:
  assumes "fst (get_full_report_data w s) = Inl e"
  shows "\<exists>k. e = exn_of k"
proof (cases "get_yesterday_metrics w s")
  case (Pair r1 s1)
  show ?thesis
  proof (cases r1)
    case (Inl e1)
    with Pair assms metrics_error_kind [of w s e1] show ?thesis
      by (simp add: full_report_cases)
  next
    case (Inr m)
    show ?thesis
    proof (cases "get_current_pipeline_status w s1")
      case (Pair r2 s2)
      with \<open>get_yesterday_metrics w s = (r1, s1)\<close> Inr assms pipeline_error_kind [of w s1 e]
      show ?thesis
        by (cases r2) (simp_all add: full_report_cases)
    qed
  qed
qed

subsection \<open>The exit code of \<open>main\<close>\<close>

lemma main_invalid_config:
  assumes "missing_fields (cfg w) \<noteq> []"
  shows "main w s = (1, s)"
  using assms
  by (simp add: main_def main_body_def validate_config_def io_catch_def io_bind_def io_raise_def)

lemma main_collection_failed:
  assumes "missing_fields (cfg w) = []" "get_full_report_data w s = (Inl e, s1)"
  shows "main w s = (if e = KeyboardInterrupt then 130 else 1, s1)"
proof -
  from assms(2) full_report_error_kind [of w s e] obtain k where "e = exn_of k"
    by auto
  with assms show ?thesis
    by (cases k)
      (simp_all add: main_def main_body_def validate_config_def io_catch_def io_bind_def
        io_raise_def io_ret_def)
qed

lemma report_subscripts:
  "getitem d ''report_date'' = io_ret (PDay (report_date (metrics_part d)))"
  "getitem d ''cvs_received'' = io_ret (PInt (cvs_received (metrics_part d)))"
  "getitem d ''cvs_parsed_success'' = io_ret (PInt (cvs_parsed_success (metrics_part d)))"
  "getitem d ''total_failed'' = io_ret (PInt (total_failed (metrics_part d)))"
  "getitem d ''success_rate'' = io_ret (PFloat (success_rate (metrics_part d)))"
  "getitem d ''activity_updated'' = io_raise (KeyError ''activity_updated'')"
  by (simp_all add: getitem_def report_items_def metrics_items_def)

lemma main_collection_ok:
  assumes "missing_fields (cfg w) = []" "get_full_report_data w s = (Inr d, s1)"
  shows "main w s = (1, s1)"
  using assms
  by (simp add: main_def main_body_def validate_config_def report_subscripts io_catch_def
      io_bind_def io_raise_def io_ret_def)

lemma main_exit_codes: "fst (main w s) = 1 \<or> fst (main w s) = 130"
proof (cases "missing_fields (cfg w) = []")
  case False
  then show ?thesis by (simp add: main_invalid_config)
next
  case True
  obtain r s1 where run: "get_full_report_data w s = (r, s1)"
    by (cases "get_full_report_data w s")
  show ?thesis
  proof (cases r)
    case (Inl e)
    with run True show ?thesis by (simp add: main_collection_failed)
  next
    case (Inr d)
    with run True show ?thesis by (simp add: main_collection_ok)
  qed
qed

lemma main_state:
  "snd (main w s) = s \<or> snd (main w s) = snd (get_full_report_data w s)"
proof (cases "missing_fields (cfg w) = []")
  case False
  then show ?thesis by (simp add: main_invalid_config)
next
  case True
  obtain r s1 where run: "get_full_report_data w s = (r, s1)"
    by (cases "get_full_report_data w s")
  show ?thesis
  proof (cases r)
    case (Inl e)
    with run True show ?thesis by (simp add: main_collection_failed)
  next
    case (Inr d)
    with run True show ?thesis by (simp add: main_collection_ok)
  qed
qed

lemma full_report_no_smtp:
  "\<exists>tr. trace (snd (get_full_report_data w s)) = trace s @ tr \<and> EvSmtp st \<notin> set tr"
proof -
  obtain r1 s1 where m: "get_yesterday_metrics w s = (r1, s1)"
    by (cases "get_yesterday_metrics w s")
  from metrics_no_smtp [of w s st] m obtain tr1 where
    t1: "trace s1 = trace s @ tr1" "EvSmtp st \<notin> set tr1"
    by auto
  show ?thesis
  proof (cases r1)
    case (Inl e)
    with m t1 show ?thesis by (simp add: full_report_cases)
  next
    case (Inr mt)
    obtain r2 s2 where p: "get_current_pipeline_status w s1 = (r2, s2)"
      by (cases "get_current_pipeline_status w s1")
    from pipeline_no_smtp [of w s1 st] p obtain tr2 where
      t2: "trace s2 = trace s1 @ tr2" "EvSmtp st \<notin> set tr2"
      by auto
    from m Inr p t1 t2 show ?thesis
      by (cases r2) (simp_all add: full_report_cases)
  qed
qed

lemma main_sends_nothing: "EvSmtp st \<notin> set (new_events s (snd (main w s)))"
  using main_state [of w s] full_report_no_smtp [of w s st]
  by (auto simp: new_events_def)

subsection \<open>A run in which nothing fails\<close>

lemma pipeline_no_fault:
  assumes "fault w (Connect Pipeline) = None" "fault w (OpenCursor Pipeline) = None"
    "fault w (Execute UsersQuery) = None" "fault w (Execute BatchQuery) = None"
    "fault w (Execute InsertionsQuery) = None"
    "fault w (CloseCursor Pipeline) = None" "fault w (CloseConnection Pipeline) = None"
  shows "get_current_pipeline_status w s =
    (Inr \<lparr>unprocessed_cvs = count_or_zero (users_count w),
          active_batches = count_or_zero (batch_count w),
          pending_insertions = count_or_zero (insertions_count w)\<rparr>,
     s\<lparr>trace := trace s @ [EvConnect, EvCursor, EvQuery UsersQuery, EvQuery BatchQuery,
                            EvQuery InsertionsQuery, EvCloseCursor, EvCloseConnection],
       connection := False, cursor := False, pending := []\<rparr>)"
  using assms
  by (simp add: collector_defs io_defs)

lemma healthy_counts:
  "users_count healthy_world = Some 7" "batch_count healthy_world = Some 1"
  "insertions_count healthy_world = Some 2"
  "missing_fields (cfg healthy_world) = []"
  by (simp_all add: healthy_world_def example_cfg_def missing_fields_def)

lemma healthy_full_report:
  "get_full_report_data healthy_world (state_of tbl) =
     (Inr \<lparr>metrics_part =
             (set_in_progress (set_success_rate (set_total_failed
                (count_loop (initial_metrics 1) (count_by_event_type 1 tbl)))))
             \<lparr>failed_emails := map project_failed (take 50 (failed_rows_of_day 1 tbl))\<rparr>,
           pipeline = \<lparr>unprocessed_cvs = 7, active_batches = 1, pending_insertions = 2\<rparr>,
           generated_at = 180000\<rparr>,
      \<lparr>table = tbl, pending = [],
       trace = [EvConnect, EvCursor, EvQuery CountsQuery, EvQuery FailedQuery,
                EvCloseCursor, EvCloseConnection,
                EvConnect, EvCursor, EvQuery UsersQuery, EvQuery BatchQuery,
                EvQuery InsertionsQuery, EvCloseCursor, EvCloseConnection],
       connection = False, cursor = False\<rparr>)"
  by (simp add: full_report_cases get_yesterday_metrics_no_fault pipeline_no_fault
      healthy_world_simps healthy_counts count_or_zero_def state_of_def)

lemma rate_table_metrics:
  "(set_in_progress (set_success_rate (set_total_failed
      (count_loop (initial_metrics 1) (count_by_event_type 1 rate_table)))))
   \<lparr>failed_emails := map project_failed (take 50 (failed_rows_of_day 1 rate_table))\<rparr>
   = rate_metrics"
  by (simp add: rate_table_counts rate_table_failed derive_defs rate_metrics_def
      project_failed_def event_at_def)

lemma rate_table_report:
  "fst (get_full_report_data healthy_world (state_of rate_table)) = Inr rate_report"
  by (simp add: healthy_full_report rate_table_metrics rate_report_def)

lemma send_report_no_fault:
  assumes "\<forall>st. fault w (Smtp st) = None"
    "None \<notin> set (map f_event_type (failed_emails (metrics_part d)))"
    "0 \<le> MAX_FAILED_EMAILS_IN_REPORT (cfg w)"
  shows "fst (send_report w d s) = Inr True"
proof -
  have "set (py_prefix (MAX_FAILED_EMAILS_IN_REPORT (cfg w)) (failed_emails (metrics_part d)))
          \<subseteq> set (failed_emails (metrics_part d))"
    using assms(3) by (simp add: py_prefix_def set_take_subset)
  with assms(2) have "None \<notin> f_event_type `
      set (py_prefix (MAX_FAILED_EMAILS_IN_REPORT (cfg w)) (failed_emails (metrics_part d)))"
    by auto
  with assms(1) show ?thesis
    by (simp add: send_report_def generate_html_report_def smtp_def io_defs Let_def)
qed

lemma rate_report_rows:
  "None \<notin> set (map f_event_type (failed_emails (metrics_part rate_report)))"
  by (simp add: rate_report_def rate_metrics_def)

text \<open>
  Claim C2. A run whose configuration is valid, whose collection succeeds and whose
  email would be accepted should exit with code 0. On such a run \<open>main\<close> exits with code 1:
  the subscript \<open>report_data['activity_updated']\<close> raises \<open>KeyError\<close> before the report is
  sent, and no message reaches the SMTP server.
\<close>

theorem healthy_run_exits_one:
  "validate_config (cfg healthy_world) = (True, ''Configuration is valid'')
   \<and> fst (get_full_report_data healthy_world (state_of rate_table)) = Inr rate_report
   \<and> fst (send_report healthy_world rate_report
             (snd (get_full_report_data healthy_world (state_of rate_table)))) = Inr True
   \<and> getitem rate_report ''activity_updated'' = io_raise (KeyError ''activity_updated'')
   \<and> fst (main healthy_world (state_of rate_table)) = 1
   \<and> EvSmtp SmtpSendMessage
       \<notin> set (new_events (state_of rate_table) (snd (main healthy_world (state_of rate_table))))"
proof -
  have "validate_config (cfg healthy_world) = (True, ''Configuration is valid'')"
    by (simp add: validate_config_def healthy_counts)
  moreover have "fst (send_report healthy_world rate_report
      (snd (get_full_report_data healthy_world (state_of rate_table)))) = Inr True"
    by (rule send_report_no_fault [OF _ rate_report_rows]) (simp_all add: healthy_world_simps)
  moreover have "getitem rate_report ''activity_updated'' = io_raise (KeyError ''activity_updated'')"
    by (rule report_subscripts)
  moreover have "fst (main healthy_world (state_of rate_table)) = 1"
    using main_collection_ok [OF healthy_counts(4), of "state_of rate_table"]
      healthy_full_report [of rate_table]
    by simp
  ultimately show ?thesis
    using rate_table_report main_sends_nothing by simp
qed

lemma main_never_exits_zero: "fst (main w s) \<noteq> 0"
  using main_exit_codes [of w s] by auto

subsection \<open>A run in which the store fails\<close>

lemma query_down_world_simps:
  "fault query_down_world (Execute CountsQuery) = Some DbFault"
  "fault query_down_world (Connect Metrics) = None"
  "fault query_down_world (OpenCursor Metrics) = None"
  "fault query_down_world (CloseCursor Metrics) = None"
  "fault query_down_world (CloseConnection Metrics) = None"
  "missing_fields (cfg query_down_world) = []"
  by (simp_all add: query_down_world_def healthy_world_def no_faults_def example_cfg_def
      missing_fields_def)

lemma query_down_metrics:
  "fst (get_yesterday_metrics query_down_world s) = Inl MySQLError"
  by (simp add: collector_defs io_finally_def io_catch_def io_bind_def io_ret_def io_raise_def
      modify_def extern_None extern_Some query_down_world_simps)

lemma full_report_fails_with_metrics:
  assumes "fst (get_yesterday_metrics w s) = Inl e"
  shows "fst (get_full_report_data w s) = Inl e"
  using assms by (cases "get_yesterday_metrics w s") (auto simp: full_report_cases)

lemma full_report_fails_on_fault:
  assumes "p \<in> set (metrics_ops @ pipeline_ops)" and "fault w p = Some k"
  shows "\<exists>e. fst (get_full_report_data w s) = Inl e"
proof -
  obtain r1 s1 where m: "get_yesterday_metrics w s = (r1, s1)"
    by (cases "get_yesterday_metrics w s")
  show ?thesis
  proof (cases r1)
    case (Inl e)
    with m show ?thesis by (simp add: full_report_cases)
  next
    case (Inr mt)
    with m metrics_fails_on_fault [of p w k s] assms have "p \<in> set pipeline_ops"
      by auto
    from pipeline_fails_on_fault [OF this assms(2), of s1] m Inr show ?thesis
      by (auto simp: full_report_cases split: prod.splits sum.splits)
  qed
qed

text \<open>
  Claim C5. When connecting to the log store or one of its two queries fails,
  \<open>get_yesterday_metrics\<close> raises the driver's exception instead of returning a record, so
  no partial or zero-filled record exists. Such a failure, and likewise a failure of the
  pipeline-status step, propagates through \<open>get_full_report_data\<close>, and \<open>main\<close> ends the run
  with a non-zero exit code without handing any message to the SMTP server.
\<close>

theorem collection_failure_is_fatal:
  "(p \<in> set metrics_ops \<and> fault w p = Some k \<longrightarrow>
      (\<exists>e k'. fst (get_yesterday_metrics w s) = Inl e \<and> e = exn_of k'))
   \<and> (p \<in> set (metrics_ops @ pipeline_ops) \<and> fault w p = Some k \<longrightarrow>
        (\<exists>e. fst (get_full_report_data w s) = Inl e)
        \<and> fst (main w s) \<noteq> 0
        \<and> EvSmtp SmtpSendMessage \<notin> set (new_events s (snd (main w s))))"
proof (intro conjI impI)
  assume "p \<in> set metrics_ops \<and> fault w p = Some k"
  then obtain e where e: "fst (get_yesterday_metrics w s) = Inl e"
    using metrics_fails_on_fault by blast
  with metrics_error_kind [OF e]
  show "\<exists>e k'. fst (get_yesterday_metrics w s) = Inl e \<and> e = exn_of k'"
    by blast
next
  assume "p \<in> set (metrics_ops @ pipeline_ops) \<and> fault w p = Some k"
  then show "\<exists>e. fst (get_full_report_data w s) = Inl e"
    using full_report_fails_on_fault by blast
next
  show "fst (main w s) \<noteq> 0"
    by (rule main_never_exits_zero)
next
  show "EvSmtp SmtpSendMessage \<notin> set (new_events s (snd (main w s)))"
    by (rule main_sends_nothing)
qed

theorem collection_failure_is_fatal_witness:
  "Execute CountsQuery \<in> set metrics_ops
   \<and> Execute CountsQuery \<in> set (metrics_ops @ pipeline_ops)
   \<and> fault query_down_world (Execute CountsQuery) = Some DbFault
   \<and> fst (get_yesterday_metrics query_down_world (state_of rate_table)) = Inl MySQLError
   \<and> fst (get_full_report_data query_down_world (state_of rate_table)) = Inl MySQLError
   \<and> fst (main query_down_world (state_of rate_table)) = 1"
proof -
  have op: "Execute CountsQuery \<in> set metrics_ops"
    by (simp add: metrics_ops_def)
  have full: "fst (get_full_report_data query_down_world (state_of rate_table)) = Inl MySQLError"
    by (rule full_report_fails_with_metrics [OF query_down_metrics])
  then obtain s1 where
    "get_full_report_data query_down_world (state_of rate_table) = (Inl MySQLError, s1)"
    by (cases "get_full_report_data query_down_world (state_of rate_table)") simp
  from main_collection_failed [OF query_down_world_simps(6) this]
  have "fst (main query_down_world (state_of rate_table)) = 1"
    by simp
  with collection_failure_is_fatal
         [of "Execute CountsQuery" query_down_world DbFault "state_of rate_table"]
    op full query_down_metrics query_down_world_simps(1)
  show ?thesis by simp
qed

section \<open>The status tier\<close>

lemma status_text_cases:
  "95 \<le> r \<Longrightarrow> status_text r = ''Excellent''"
  "85 \<le> r \<Longrightarrow> r < 95 \<Longrightarrow> status_text r = ''Good''"
  "70 \<le> r \<Longrightarrow> r < 85 \<Longrightarrow> status_text r = ''Needs Attention''"
  "r < 70 \<Longrightarrow> status_text r = ''Critical''"
  by (simp_all add: status_text_def status_tier_def)

text \<open>
  Claim C7. The status tier depends on the success rate alone, by fixed thresholds:
  at least 95 is Excellent, from 85 up to 95 Good, from 70 up to 85 Needs Attention, below 70
  Critical; so 95.0, 94.9, 85.0, 84.9, 70.0 and 69.9 map to Excellent, Good, Good,
  Needs Attention, Needs Attention and Critical. The renderer takes the tier from the
  \<open>success_rate\<close> entry of the report and from nothing else.
\<close>

theorem status_tier_thresholds:
  "(95 \<le> r \<longrightarrow> status_text r = ''Excellent'')
   \<and> (85 \<le> r \<and> r < 95 \<longrightarrow> status_text r = ''Good'')
   \<and> (70 \<le> r \<and> r < 85 \<longrightarrow> status_text r = ''Needs Attention'')
   \<and> (r < 70 \<longrightarrow> status_text r = ''Critical'')
   \<and> status_text 95 = ''Excellent'' \<and> status_text 94.9 = ''Good''
   \<and> status_text 85 = ''Good'' \<and> status_text 84.9 = ''Needs Attention''
   \<and> status_text 70 = ''Needs Attention'' \<and> status_text 69.9 = ''Critical''
   \<and> (generate_html_report c d = Inr h
        \<longrightarrow> tier h = status_tier (success_rate (metrics_part d)))"
  by (auto simp: status_text_cases generate_html_report_def Let_def split: if_splits)

theorem status_tier_thresholds_witness:
  "status_text 96 = ''Excellent'' \<and> status_text 90 = ''Good''
   \<and> status_text 75 = ''Needs Attention'' \<and> status_text 50 = ''Critical''
   \<and> success_rate (metrics_part rate_report) = 75
   \<and> map_sum id tier (generate_html_report example_cfg rate_report)
       = Inr (0x1F7E0, ''#fd7e14'', ''Needs Attention'')"
proof -
  obtain h where h: "generate_html_report example_cfg rate_report = Inr h"
    using rate_report_rows
    by (simp add: generate_html_report_def Let_def py_prefix_def example_cfg_def
        rate_report_def rate_metrics_def)
  have rate: "success_rate (metrics_part rate_report) = 75"
    by (simp add: rate_report_def rate_metrics_def)
  from status_tier_thresholds [of 96 example_cfg rate_report h]
    status_tier_thresholds [of 90 example_cfg rate_report h]
    status_tier_thresholds [of 75 example_cfg rate_report h]
    status_tier_thresholds [of 50 example_cfg rate_report h] h rate
  show ?thesis
    by (simp add: status_tier_def)
qed

section \<open>Connections of a report run\<close>






text \<open>
  What the proviso excludes: when \<open>cursor.close()\<close> raises in the \<open>finally\<close> block of a
  collector method, \<open>connection.close()\<close> is skipped and the connection stays open.
\<close>

lemma cursor_close_failure_leaves_connection_open:
  assumes "fault w (Connect Metrics) = None" "fault w (OpenCursor Metrics) = None"
    "fault w (CloseCursor Metrics) = Some k"
  shows "connection (snd (get_yesterday_metrics w s))
         \<and> EvCloseConnection \<notin> set (new_events s (snd (get_yesterday_metrics w s)))"
  using assms
  by (auto simp: new_events_def collector_defs io_defs Let_def split: option.splits if_splits)

section \<open>The failure rows of the report\<close>

lemma failed_rows_of_day_alt:
  "failed_rows_of_day day tbl = sort_key (\<lambda>r. - timestamp r) (filter (failed_on day) tbl)"
  by (simp add: failed_rows_of_day_def failed_on_def [abs_def])

lemma metrics_failed_emails:
  assumes "fst (get_yesterday_metrics w s) = Inr m"
  shows "failed_emails m =
           map project_failed
             (take (nat (MAX_FAILED_EMAILS_IN_REPORT (cfg w)))
                (failed_rows_of_day (yesterday w) (table s)))"
  using assms
  by (auto simp: collector_defs io_defs Let_def split: option.splits if_splits)

lemma newest_first:
  "sorted_wrt (\<lambda>a b. b \<le> a)
     (map f_timestamp (map project_failed (take n (failed_rows_of_day day tbl))))"
proof -
  have "sorted (map (\<lambda>r. - timestamp r) (failed_rows_of_day day tbl))"
    unfolding failed_rows_of_day_def by (rule sorted_sort_key)
  then have "sorted (take n (map (\<lambda>r. - timestamp r) (failed_rows_of_day day tbl)))"
    by (rule sorted_wrt_take)
  then have "sorted_wrt (\<lambda>a b. - timestamp a \<le> - timestamp b)
               (take n (failed_rows_of_day day tbl))"
    by (simp add: take_map sorted_wrt_map)
  then show ?thesis
    by (simp add: sorted_wrt_map project_failed_def)
qed

lemma activity_table_counts:
  "count_by_event_type 1 activity_table =
   [\<lparr>g_event_type = Some ''cv_received'', g_count = 1\<rparr>,
    \<lparr>g_event_type = Some ''activity_update_failed'', g_count = 1\<rparr>,
    \<lparr>g_event_type = Some ''cv_rejected'', g_count = 1\<rparr>,
    \<lparr>g_event_type = Some ''activity_updated'', g_count = 1\<rparr>]"
  by (simp add: count_by_event_type_def activity_table_def event_at_def date_of_def)

lemma activity_table_failed:
  "failed_rows_of_day 1 activity_table =
     [event_at 86500 ''activity_update_failed'' ''failed'',
      event_at 86450 ''cv_rejected'' ''failed'']"
  by (simp add: failed_rows_of_day_def activity_table_def event_at_def date_of_def)

lemma activity_table_run:
  "fst (get_yesterday_metrics healthy_world (state_of activity_table)) = Inr activity_metrics"
  by (simp add: healthy_metrics activity_table_counts activity_table_failed derive_defs
      activity_metrics_def)

text \<open>
  Claim C9. The \<open>failed_emails\<close> of a returned record are the rows of the report day with
  status \<open>failed\<close>, whatever their event type, newest first and cut at the configured cap:
  their number is the smaller of the cap and the number of such rows, and when the cap is
  not exceeded every such row appears. A failed \<open>activity_update_failed\<close> row appears there
  while no failure counter counts it, so the list can be longer than \<open>total_failed\<close>.
\<close>

theorem failed_emails_any_event_type:
  "(fst (get_yesterday_metrics w s) = Inr m \<longrightarrow>
      failed_emails m =
        map project_failed
          (take (nat (MAX_FAILED_EMAILS_IN_REPORT (cfg w)))
             (sort_key (\<lambda>r. - timestamp r) (filter (failed_on (yesterday w)) (table s))))
      \<and> length (failed_emails m) =
          min (nat (MAX_FAILED_EMAILS_IN_REPORT (cfg w)))
              (length (filter (failed_on (yesterday w)) (table s)))
      \<and> sorted_wrt (\<lambda>a b. b \<le> a) (map f_timestamp (failed_emails m))
      \<and> (length (filter (failed_on (yesterday w)) (table s))
            \<le> nat (MAX_FAILED_EMAILS_IN_REPORT (cfg w)) \<longrightarrow>
          set (failed_emails m)
            = project_failed ` {r \<in> set (table s). failed_on (yesterday w) r}))
   \<and> fst (get_yesterday_metrics healthy_world (state_of activity_table)) = Inr activity_metrics
   \<and> map f_event_type (failed_emails activity_metrics)
       = [Some ''activity_update_failed'', Some ''cv_rejected'']
   \<and> total_failed activity_metrics = 1
   \<and> total_failed activity_metrics < int (length (failed_emails activity_metrics))"
proof -
  have general: "failed_emails m =
        map project_failed
          (take (nat (MAX_FAILED_EMAILS_IN_REPORT (cfg w)))
             (sort_key (\<lambda>r. - timestamp r) (filter (failed_on (yesterday w)) (table s))))
      \<and> length (failed_emails m) =
          min (nat (MAX_FAILED_EMAILS_IN_REPORT (cfg w)))
              (length (filter (failed_on (yesterday w)) (table s)))
      \<and> sorted_wrt (\<lambda>a b. b \<le> a) (map f_timestamp (failed_emails m))
      \<and> (length (filter (failed_on (yesterday w)) (table s))
            \<le> nat (MAX_FAILED_EMAILS_IN_REPORT (cfg w)) \<longrightarrow>
          set (failed_emails m)
            = project_failed ` {r \<in> set (table s). failed_on (yesterday w) r})"
    if run: "fst (get_yesterday_metrics w s) = Inr m"
  proof -
    note fe = metrics_failed_emails [OF run]
    have "sorted_wrt (\<lambda>a b. b \<le> a) (map f_timestamp (failed_emails m))"
      unfolding fe by (rule newest_first)
    then show ?thesis
      using fe by (auto simp: failed_rows_of_day_alt min_def)
  qed
  have "map f_event_type (failed_emails activity_metrics)
          = [Some ''activity_update_failed'', Some ''cv_rejected'']"
    "total_failed activity_metrics = 1"
    "total_failed activity_metrics < int (length (failed_emails activity_metrics))"
    by (simp_all add: activity_metrics_def project_failed_def event_at_def)
  with general activity_table_run show ?thesis
    by blast
qed

theorem failed_emails_any_event_type_witness:
  "fst (get_yesterday_metrics healthy_world (state_of activity_table)) = Inr activity_metrics
   \<and> length (filter (failed_on (yesterday healthy_world)) (table (state_of activity_table))) = 2
   \<and> nat (MAX_FAILED_EMAILS_IN_REPORT (cfg healthy_world)) = 50
   \<and> length (failed_emails activity_metrics) = 2
   \<and> set (failed_emails activity_metrics)
       = project_failed ` {r \<in> set (table (state_of activity_table)).
                            failed_on (yesterday healthy_world) r}"
proof -
  have n: "length (filter (failed_on (yesterday healthy_world))
                     (table (state_of activity_table))) = 2"
    by (simp add: healthy_world_simps table_state_of failed_on_def activity_table_def
        event_at_def date_of_def)
  from failed_emails_any_event_type
         [of healthy_world "state_of activity_table" activity_metrics]
    activity_table_run n
  show ?thesis
    by (simp add: healthy_world_simps)
qed

section \<open>The event writers\<close>

lemmas tracker_defs = log_cv_event_def log_cv_event_body_def log_bulk_events_def
  log_bulk_events_body_def tracker_connect_def tracker_cleanup_def insert_rows_def commit_def

lemma tracker_handlers_exn_of:
  "k \<noteq> Interrupt \<Longrightarrow> tracker_handlers (exn_of k) = io_ret False"
  by (cases k) (simp_all add: tracker_handlers_def)

lemma tracker_handlers_AttributeError: "tracker_handlers AttributeError = io_ret False"
  by (simp add: tracker_handlers_def)

text \<open>The shape shared by both writers: handlers around the body, then the clean-up.\<close>

lemma tracker_cleanup_total: "\<exists>s'. tracker_cleanup w c s = (Inr (), s')"
  by (auto simp: tracker_cleanup_def io_defs split: option.splits)

lemma tracker_cleanup_keeps:
  "table (snd (tracker_cleanup w c s)) = table s"
  by (auto simp: tracker_cleanup_def io_defs split: option.splits)

lemma guarded_returns:
  assumes "\<And>e s'. body s0 = (Inl e, s') \<Longrightarrow> \<exists>b. tracker_handlers e s' = (Inr b, s')"
  shows "\<exists>b. fst (io_finally (io_catch body tracker_handlers) (tracker_cleanup w c) s0) = Inr b"
proof -
  obtain r s1 where b: "body s0 = (r, s1)"
    by (cases "body s0")
  obtain s2 where c: "tracker_cleanup w c s1 = (Inr (), s2)"
    using tracker_cleanup_total by blast
  show ?thesis
  proof (cases r)
    case (Inl e)
    with assms b obtain b' where "tracker_handlers e s1 = (Inr b', s1)"
      by blast
    with b Inl c show ?thesis
      by (simp add: io_finally_def io_catch_def)
  next
    case (Inr v)
    with b c show ?thesis
      by (simp add: io_finally_def io_catch_def)
  qed
qed

lemma single_body_errors:
  assumes "log_cv_event_body w em et st u msg s0 = (Inl e, s')"
  shows "\<exists>k. e = exn_of k \<and> (\<exists>p. fault w p = Some k)"
  using assms
  by (auto simp: log_cv_event_body_def tracker_connect_def insert_rows_def commit_def io_defs
      split: option.splits if_splits)

lemma bulk_values_error: "bulk_values w evs = Inl e \<Longrightarrow> e = AttributeError"
  by (induction w evs rule: bulk_values.induct) (auto split: sum.splits)

lemma bulk_values_dicts: "bulk_values w (map DictItem ds) = Inr (map (bulk_row w) ds)"
  by (induction ds) simp_all

lemma bulk_body_errors:
  assumes "log_bulk_events_body w evs s0 = (Inl e, s')"
  shows "e = AttributeError \<or> (\<exists>k. e = exn_of k \<and> (\<exists>p. fault w p = Some k))"
  using assms
  by (auto simp: log_bulk_events_body_def tracker_connect_def insert_rows_def commit_def io_defs
      dest: bulk_values_error
      split: option.splits if_splits bulk_arg.splits list.splits sum.splits)

lemma single_rejects:
  assumes "et \<notin> set valid_events \<or> st \<notin> {''success'', ''failed''}"
  shows "log_cv_event w em et st u msg s = (Inr False, s\<lparr>connection := False, cursor := False\<rparr>)"
  using assms
  by (auto simp: log_cv_event_def log_cv_event_body_def tracker_cleanup_def io_defs)

lemma single_never_raises:
  assumes "\<forall>p. fault w p \<noteq> Some Interrupt"
  shows "\<exists>b. fst (log_cv_event w em et st u msg s) = Inr b"
  unfolding log_cv_event_def
proof (rule guarded_returns)
  fix e s'
  assume "log_cv_event_body w em et st u msg (s\<lparr>connection := False, cursor := False\<rparr>)
            = (Inl e, s')"
  from single_body_errors [OF this] obtain k p where "e = exn_of k" "fault w p = Some k"
    by blast
  with assms have "tracker_handlers e = io_ret False"
    by (metis tracker_handlers_exn_of)
  then show "\<exists>b. tracker_handlers e s' = (Inr b, s')"
    by (auto simp: io_ret_def)
qed

lemma single_persists_iff:
  "fst (log_cv_event w em et st u msg s) = Inr True \<Longrightarrow>
     table (snd (log_cv_event w em et st u msg s))
       = table s @ [\<lparr>timestamp = now w, email = Some em, event_type = Some et,
                      status = Some st, error_message = msg, user_id = u\<rparr>]"
  "fst (log_cv_event w em et st u msg s) \<noteq> Inr True \<Longrightarrow>
     table (snd (log_cv_event w em et st u msg s)) = table s"
  by (auto simp: tracker_defs tracker_handlers_def io_defs
      split: option.splits if_splits fault_kind.splits)

lemma bulk_empty:
  assumes "evs = NoneArg \<or> evs = ListArg []"
  shows "log_bulk_events w evs s = (Inr True, s\<lparr>connection := False, cursor := False\<rparr>)"
  using assms
  by (auto simp: log_bulk_events_def log_bulk_events_body_def tracker_cleanup_def io_defs)

lemma bulk_never_raises:
  assumes "\<forall>p. fault w p \<noteq> Some Interrupt"
  shows "\<exists>b. fst (log_bulk_events w evs s) = Inr b"
  unfolding log_bulk_events_def
proof (rule guarded_returns)
  fix e s'
  assume "log_bulk_events_body w evs (s\<lparr>connection := False, cursor := False\<rparr>) = (Inl e, s')"
  from bulk_body_errors [OF this] assms have "tracker_handlers e = io_ret False"
    by (metis tracker_handlers_exn_of tracker_handlers_AttributeError)
  then show "\<exists>b. tracker_handlers e s' = (Inr b, s')"
    by (auto simp: io_ret_def)
qed

lemma bulk_no_fault:
  assumes "fault w (Connect BulkEvents) = None" "fault w (OpenCursor BulkEvents) = None"
    "fault w (Execute InsertMany) = None" "fault w (Commit BulkEvents) = None"
    "fault w (CloseCursor BulkEvents) = None" "fault w (CloseConnection BulkEvents) = None"
  shows "log_bulk_events w (ListArg (DictItem d # map DictItem ds)) s =
           (Inr True,
            s\<lparr>table := table s @ bulk_row w d # map (bulk_row w) ds, pending := [],
              trace := trace s @ [EvConnect, EvCursor, EvQuery InsertMany, EvCommit,
                                  EvCloseCursor, EvCloseConnection],
              connection := False, cursor := False\<rparr>)"
  using assms
  by (simp add: tracker_defs io_defs bulk_values_dicts)

lemma single_no_fault:
  assumes "fault w (Connect SingleEvent) = None" "fault w (OpenCursor SingleEvent) = None"
    "fault w (Execute InsertOne) = None" "fault w (Commit SingleEvent) = None"
    "fault w (CloseCursor SingleEvent) = None" "fault w (CloseConnection SingleEvent) = None"
    "et \<in> set valid_events" "st \<in> {''success'', ''failed''}"
  shows "log_cv_event w em et st u msg s =
           (Inr True,
            s\<lparr>table := table s @ [\<lparr>timestamp = now w, email = Some em, event_type = Some et,
                                      status = Some st, error_message = msg, user_id = u\<rparr>],
              pending := [],
              trace := trace s @ [EvConnect, EvCursor, EvQuery InsertOne, EvCommit,
                                  EvCloseCursor, EvCloseConnection],
              connection := False, cursor := False\<rparr>)"
  using assms
  by (auto simp: tracker_defs io_defs)

lemma guarded_raises:
  assumes "fst (io_finally (io_catch body tracker_handlers) (tracker_cleanup w c) s0) = Inl e"
  shows "\<not> is_Exception e \<and> (\<exists>s'. body s0 = (Inl e, s'))"
proof -
  obtain r s1 where b: "body s0 = (r, s1)"
    by (cases "body s0")
  show ?thesis
  proof (cases r)
    case (Inl e')
    obtain s2 where c: "tracker_cleanup w c s1 = (Inr (), s2)"
      using tracker_cleanup_total by blast
    with b Inl assms show ?thesis
      by (auto simp: io_finally_def io_catch_def tracker_handlers_def io_ret_def io_raise_def
          split: if_splits)
  next
    case (Inr v)
    obtain s2 where c: "tracker_cleanup w c s1 = (Inr (), s2)"
      using tracker_cleanup_total by blast
    with b Inr assms show ?thesis
      by (simp add: io_finally_def io_catch_def)
  qed
qed

lemma not_Exception_exn_of: "\<not> is_Exception (exn_of k) \<Longrightarrow> exn_of k = KeyboardInterrupt"
  by (cases k) simp_all

lemma single_raises_only_interrupt:
  assumes "fst (log_cv_event w em et st u msg s) = Inl e"
  shows "e = KeyboardInterrupt"
proof -
  from guarded_raises [OF assms [unfolded log_cv_event_def]] obtain s' where
    "\<not> is_Exception e"
    "log_cv_event_body w em et st u msg (s\<lparr>connection := False, cursor := False\<rparr>) = (Inl e, s')"
    by blast
  with single_body_errors [OF this(2)] show ?thesis
    by (auto dest: not_Exception_exn_of)
qed

lemma bulk_raises_only_interrupt:
  assumes "fst (log_bulk_events w evs s) = Inl e"
  shows "e = KeyboardInterrupt"
proof -
  from guarded_raises [OF assms [unfolded log_bulk_events_def]] obtain s' where
    "\<not> is_Exception e"
    "log_bulk_events_body w evs (s\<lparr>connection := False, cursor := False\<rparr>) = (Inl e, s')"
    by blast
  with bulk_body_errors [OF this(2)] show ?thesis
    by (auto dest: not_Exception_exn_of)
qed

subsection \<open>The contract of the two writers\<close>

lemma store_down_world_simps:
  "fault store_down_world p = Some DbFault" "now store_down_world = 180000"
  by (simp_all add: store_down_world_def healthy_world_def)

lemma valid_events_examples:
  "''bogus'' \<notin> set valid_events" "''cv_received'' \<in> set valid_events"
  by (simp_all add: valid_events_def)

text \<open>
  Claim C6. \<open>log_cv_event\<close> with an event type outside the enumeration or a status other than
  \<open>success\<close> and \<open>failed\<close> returns \<open>False\<close>, raises nothing, performs no database operation and
  leaves the table as it was. For all arguments and every way the database operations can
  fail it returns a boolean instead of raising: no \<open>Exception\<close> ever leaves the call, and the
  only thing that can is a \<open>KeyboardInterrupt\<close> signal delivered while it runs. The table
  changes only when it returns \<open>True\<close>.
\<close>

theorem log_cv_event_rejects_and_never_raises:
  "(et \<notin> set valid_events \<or> st \<notin> {''success'', ''failed''} \<longrightarrow>
      fst (log_cv_event w em et st u msg s) = Inr False
      \<and> table (snd (log_cv_event w em et st u msg s)) = table s
      \<and> new_events s (snd (log_cv_event w em et st u msg s)) = [])
   \<and> ((\<forall>p. fault w p \<noteq> Some Interrupt) \<longrightarrow>
        (\<exists>b. fst (log_cv_event w em et st u msg s) = Inr b))
   \<and> (\<forall>e. fst (log_cv_event w em et st u msg s) = Inl e \<longrightarrow> e = KeyboardInterrupt)
   \<and> (fst (log_cv_event w em et st u msg s) \<noteq> Inr True \<longrightarrow>
        table (snd (log_cv_event w em et st u msg s)) = table s)"
  using single_never_raises [of w em et st u msg s] single_persists_iff(2) [of w em et st u msg s]
    single_raises_only_interrupt [of w em et st u msg s]
  by (auto simp: single_rejects new_events_def)

theorem log_cv_event_rejects_and_never_raises_witness:
  "''bogus'' \<notin> set valid_events
   \<and> fst (log_cv_event healthy_world ''x@example.com'' ''bogus'' ''success'' None None
            (state_of rate_table)) = Inr False
   \<and> table (snd (log_cv_event healthy_world ''x@example.com'' ''bogus'' ''success'' None None
                   (state_of rate_table))) = rate_table
   \<and> fst (log_cv_event healthy_world ''x@example.com'' ''cv_received'' ''maybe'' None None
            (state_of rate_table)) = Inr False
   \<and> (\<forall>p. fault store_down_world p \<noteq> Some Interrupt)
   \<and> fst (log_cv_event store_down_world ''x@example.com'' ''cv_received'' ''success'' None None
            (state_of rate_table)) = Inr False
   \<and> table (snd (log_cv_event store_down_world ''x@example.com'' ''cv_received'' ''success''
                   None None (state_of rate_table))) = rate_table"
proof -
  have down: "fst (log_cv_event store_down_world ''x@example.com'' ''cv_received'' ''success''
                     None None (state_of rate_table)) = Inr False"
    by (simp add: tracker_defs tracker_handlers_def io_defs store_down_world_simps
        valid_events_examples)
  from log_cv_event_rejects_and_never_raises
         [of "''bogus''" "''success''" healthy_world "''x@example.com''" None None
             "state_of rate_table"]
       log_cv_event_rejects_and_never_raises
         [of "''cv_received''" "''maybe''" healthy_world "''x@example.com''" None None
             "state_of rate_table"]
       log_cv_event_rejects_and_never_raises
         [of "''cv_received''" "''success''" store_down_world "''x@example.com''" None None
             "state_of rate_table"]
       down
  show ?thesis
    by (simp add: valid_events_examples store_down_world_simps table_state_of)
qed

text \<open>
  Claim C10. \<open>log_bulk_events\<close> returns a boolean instead of raising for every argument and
  every way the database operations can fail: no \<open>Exception\<close> ever leaves the call, and the
  only thing that can is a \<open>KeyboardInterrupt\<close> signal delivered while it runs; for \<open>None\<close> or an empty list it returns \<open>True\<close> without any database operation and
  without changing the table; and it validates neither event type nor status: when no
  operation fails, every dictionary of a non-empty list is stored as a row, whatever its
  entries.
\<close>

theorem log_bulk_events_contract:
  "((\<forall>p. fault w p \<noteq> Some Interrupt) \<longrightarrow> (\<exists>b. fst (log_bulk_events w evs s) = Inr b))
   \<and> (\<forall>e. fst (log_bulk_events w evs s) = Inl e \<longrightarrow> e = KeyboardInterrupt)
   \<and> (evs = NoneArg \<or> evs = ListArg [] \<longrightarrow>
        fst (log_bulk_events w evs s) = Inr True
        \<and> new_events s (snd (log_bulk_events w evs s)) = []
        \<and> table (snd (log_bulk_events w evs s)) = table s)
   \<and> ((\<forall>p. fault w p = None) \<longrightarrow>
        fst (log_bulk_events w (ListArg (map DictItem (d # ds))) s) = Inr True
        \<and> table (snd (log_bulk_events w (ListArg (map DictItem (d # ds))) s))
            = table s @ map (bulk_row w) (d # ds))"
  using bulk_never_raises [of w evs s] bulk_raises_only_interrupt [of w evs s]
  by (auto simp: bulk_empty bulk_no_fault new_events_def)

theorem log_bulk_events_contract_witness:
  "(\<forall>p. fault store_down_world p \<noteq> Some Interrupt)
   \<and> fst (log_bulk_events store_down_world (ListArg [DictItem bogus_event, OtherItem])
            (state_of rate_table)) = Inr False
   \<and> fst (log_bulk_events healthy_world (ListArg []) (state_of rate_table)) = Inr True
   \<and> new_events (state_of rate_table)
        (snd (log_bulk_events healthy_world (ListArg []) (state_of rate_table))) = []
   \<and> (\<forall>p. fault healthy_world p = None)
   \<and> fst (log_bulk_events healthy_world (ListArg [DictItem bogus_event]) (state_of rate_table))
       = Inr True
   \<and> table (snd (log_bulk_events healthy_world (ListArg [DictItem bogus_event])
                   (state_of rate_table)))
       = rate_table @ [\<lparr>timestamp = 180000, email = Some ''x@example.com'',
                         event_type = Some ''bogus'', status = Some ''maybe'',
                         error_message = None, user_id = None\<rparr>]
   \<and> fst (log_cv_event healthy_world ''x@example.com'' ''bogus'' ''maybe'' None None
            (state_of rate_table)) = Inr False"
proof -
  have down: "fst (log_bulk_events store_down_world (ListArg [DictItem bogus_event, OtherItem])
                     (state_of rate_table)) = Inr False"
    by (simp add: tracker_defs tracker_handlers_def io_defs store_down_world_simps)
  have single: "fst (log_cv_event healthy_world ''x@example.com'' ''bogus'' ''maybe'' None None
                       (state_of rate_table)) = Inr False"
    by (simp add: single_rejects valid_events_examples)
  have row: "bulk_row healthy_world bogus_event
               = \<lparr>timestamp = 180000, email = Some ''x@example.com'',
                  event_type = Some ''bogus'', status = Some ''maybe'',
                  error_message = None, user_id = None\<rparr>"
    by (simp add: bulk_row_def bogus_event_def healthy_world_simps)
  from log_bulk_events_contract
         [of store_down_world "ListArg [DictItem bogus_event, OtherItem]" "state_of rate_table"]
       log_bulk_events_contract
         [of healthy_world "ListArg []" "state_of rate_table" bogus_event "[]"]
       down single row
  show ?thesis
    by (simp add: healthy_world_simps store_down_world_simps table_state_of)
qed

end
